theory Spec2Isabelle
  imports Main "HOL-Library.Word" "HOL-Library.Multiset"
begin

section \<open>Signed routing state records (routing/state.go)\<close>

text \<open>
  The file \<^verbatim>\<open>routing/state.go\<close> builds, parses, serialises and compares signed routing
  state records. Everything it calls outside the file (the signed envelope of package
  \<^verbatim>\<open>crypto\<close>, the identities of package \<^verbatim>\<open>peer\<close>, the protobuf codec of the generated
  package \<^verbatim>\<open>routing/pb\<close> and the multiaddr library) is taken as a parameter: the record
  \<open>collab\<close> below holds one field per foreign function that the file calls.
\<close>

subsection \<open>Bytes, errors, Go results\<close>

type_synonym byte = "8 word"
type_synonym bytes = "byte list"

text \<open>
  A Go \<^verbatim>\<open>error\<close> value, identified by its message. \<^verbatim>\<open>errors.New(msg)\<close> is \<open>errors_New msg\<close>.
\<close>

datatype error = errors_New string

text \<open>
  A Go call either returns or panics (a nil dereference, an index out of range).
\<close>

datatype 'a outcome = Returns 'a | Panics

text \<open>
  \<^verbatim>\<open>bytes.Compare\<close> of the Go standard library: the lexicographic comparison of two byte
  slices, with result \<open>-1\<close>, \<open>0\<close> or \<open>1\<close>. A nil slice and an empty one are both \<open>[]\<close>.
\<close>

fun bytes_Compare :: "bytes \<Rightarrow> bytes \<Rightarrow> int" where
  "bytes_Compare [] [] = 0"
| "bytes_Compare [] (y # ys) = - 1"
| "bytes_Compare (x # xs) [] = 1"
| "bytes_Compare (x # xs) (y # ys) =
     (if x < y then - 1 else if y < x then 1 else bytes_Compare xs ys)"

text \<open>The conversion \<^verbatim>\<open>[]byte("...")\<close> of a string literal.\<close>

definition bytes_of_string :: "string \<Rightarrow> bytes" where
  "bytes_of_string s = map (\<lambda>c. of_nat (of_char c)) s"

subsection \<open>Constants\<close>

definition StateEnvelopeDomain :: string where
  "StateEnvelopeDomain = ''libp2p-routing-state''"

definition StateEnvelopePayloadType :: bytes where
  "StateEnvelopePayloadType = bytes_of_string ''/libp2p/routing-state-record''"

subsection \<open>The protobuf message\<close>

text \<open>
  The message types of \<^verbatim>\<open>routing/pb\<close>, with the fields that \<^verbatim>\<open>state.go\<close> reads and writes.
  \<^verbatim>\<open>Addresses\<close> is a slice of pointers in Go; \<^verbatim>\<open>addrsToProtobuf\<close> stores fresh
  non-nil entries and the codec decodes into fresh ones, so entries are values here.
\<close>

record RoutingStateRecord_AddressInfo =
  Multiaddr :: bytes

record RoutingStateRecord =
  PeerId :: bytes
  Seq :: "64 word"
  Addresses :: "RoutingStateRecord_AddressInfo list"

subsection \<open>The collaborators\<close>

text \<open>
  The foreign functions called by \<^verbatim>\<open>state.go\<close>. A Go function returning \<^verbatim>\<open>(x, err)\<close> is
  a function into \<open>error + 'a\<close>: \<open>Inl err\<close> when \<^verbatim>\<open>err != nil\<close>, \<open>Inr x\<close> otherwise.
  The types of private keys, public keys, identities, addresses and envelopes are
  parameters as well; \<^verbatim>\<open>!=\<close> on \<^verbatim>\<open>peer.ID\<close> (a Go string type) is HOL's disequality.
\<close>

record ('priv, 'pub, 'id, 'addr, 'env) collab =
  peer_IDFromPrivateKey :: "'priv \<Rightarrow> error + 'id"
  peer_MarshalBinary :: "'id \<Rightarrow> error + bytes"
  peer_IDFromBytes :: "bytes \<Rightarrow> error + 'id"
  peer_MatchesPublicKey :: "'id \<Rightarrow> 'pub \<Rightarrow> bool"
  proto_Marshal :: "RoutingStateRecord \<Rightarrow> error + bytes"
  proto_Unmarshal :: "bytes \<Rightarrow> error + RoutingStateRecord"
  crypto_MakeEnvelope :: "'priv \<Rightarrow> string \<Rightarrow> bytes \<Rightarrow> bytes \<Rightarrow> error + 'env"
  crypto_OpenEnvelope :: "bytes \<Rightarrow> string \<Rightarrow> error + 'env"
  env_PayloadType :: "'env \<Rightarrow> bytes"
  env_Payload :: "'env \<Rightarrow> bytes"
  env_PublicKey :: "'env \<Rightarrow> 'pub"
  env_Marshal :: "'env \<Rightarrow> error + bytes"
  env_Equal :: "'env \<Rightarrow> 'env \<Rightarrow> bool"
  ma_NewMultiaddrBytes :: "bytes \<Rightarrow> error + 'addr"
  ma_Bytes :: "'addr \<Rightarrow> bytes"
  ma_Equal :: "'addr \<Rightarrow> 'addr \<Rightarrow> bool"

subsection \<open>The record\<close>

text \<open>
  The struct \<^verbatim>\<open>SignedRoutingState\<close>. Its fields are private and both constructors of the
  file store a non-nil envelope, so the envelope is a value. So is an address
  (\<^verbatim>\<open>ma.Multiaddr\<close>, an interface): \<^verbatim>\<open>MakeSignedRoutingState\<close> calls \<^verbatim>\<open>Bytes()\<close> on every
  address it is given, and the parser stores the addresses that \<^verbatim>\<open>NewMultiaddrBytes\<close>
  returned without error. A pointer to a record (\<^verbatim>\<open>*SignedRoutingState\<close>) is an
  \<open>option\<close>, \<open>None\<close> being nil.
\<close>

record ('id, 'addr, 'env) SignedRoutingState =
  peerID :: 'id
  seq :: "64 word"
  addresses :: "'addr list"
  envelope :: 'env

subsection \<open>Helpers\<close>

text \<open>
  \<^verbatim>\<open>statelessSeqNo\<close> reads the clock. The reading \<^verbatim>\<open>time.Now().UnixNano()\<close> is an \<^verbatim>\<open>int64\<close>,
  here the argument \<open>now\<close>: a 64-bit word read as two's complement by \<open>sint\<close>. The
  conversion \<^verbatim>\<open>uint64(...)\<close> keeps the value modulo \<open>2 ^ 64\<close>.
\<close>

definition statelessSeqNo :: "64 word \<Rightarrow> 64 word" where
  "statelessSeqNo now = word_of_int (sint now)"

text \<open>
  \<^verbatim>\<open>addrsFromProtobuf\<close>: the loop appends each entry that parses to \<^verbatim>\<open>out\<close> and skips
  (\<^verbatim>\<open>continue\<close>) each entry that does not.
\<close>

fun addrsFromProtobuf_loop ::
  "('priv, 'pub, 'id, 'addr, 'env) collab \<Rightarrow> 'addr list \<Rightarrow>
   RoutingStateRecord_AddressInfo list \<Rightarrow> 'addr list" where
  "addrsFromProtobuf_loop D out [] = out"
| "addrsFromProtobuf_loop D out (addr # rest) =
     (case ma_NewMultiaddrBytes D (Multiaddr addr) of
        Inl err \<Rightarrow> addrsFromProtobuf_loop D out rest
      | Inr a \<Rightarrow> addrsFromProtobuf_loop D (out @ [a]) rest)"

definition addrsFromProtobuf ::
  "('priv, 'pub, 'id, 'addr, 'env) collab \<Rightarrow>
   RoutingStateRecord_AddressInfo list \<Rightarrow> 'addr list" where
  "addrsFromProtobuf D addrs = addrsFromProtobuf_loop D [] addrs"

fun addrsToProtobuf_loop ::
  "('priv, 'pub, 'id, 'addr, 'env) collab \<Rightarrow> RoutingStateRecord_AddressInfo list \<Rightarrow>
   'addr list \<Rightarrow> RoutingStateRecord_AddressInfo list" where
  "addrsToProtobuf_loop D out [] = out"
| "addrsToProtobuf_loop D out (addr # rest) =
     addrsToProtobuf_loop D (out @ [\<lparr>Multiaddr = ma_Bytes D addr\<rparr>]) rest"

definition addrsToProtobuf ::
  "('priv, 'pub, 'id, 'addr, 'env) collab \<Rightarrow> 'addr list \<Rightarrow>
   RoutingStateRecord_AddressInfo list" where
  "addrsToProtobuf D addrs = addrsToProtobuf_loop D [] addrs"

subsection \<open>Building, parsing, serialising\<close>

text \<open>
  A Go result \<^verbatim>\<open>(*SignedRoutingState, error)\<close> is a pair of options, so that a record
  returned next to an error would show.
\<close>

type_synonym ('id, 'addr, 'env) result =
  "('id, 'addr, 'env) SignedRoutingState option \<times> error option"

definition MakeSignedRoutingState ::
  "('priv, 'pub, 'id, 'addr, 'env) collab \<Rightarrow> 64 word \<Rightarrow> 'priv \<Rightarrow> 'addr list \<Rightarrow>
   ('id, 'addr, 'env) result" where
  "MakeSignedRoutingState D now privKey addrs =
     (case peer_IDFromPrivateKey D privKey of
        Inl err \<Rightarrow> (None, Some err)
      | Inr p \<Rightarrow>
     (case peer_MarshalBinary D p of
        Inl err \<Rightarrow> (None, Some err)
      | Inr idBytes \<Rightarrow>
     (let sq = statelessSeqNo now;
          msg = \<lparr>PeerId = idBytes, Seq = sq, Addresses = addrsToProtobuf D addrs\<rparr>
      in
     (case proto_Marshal D msg of
        Inl err \<Rightarrow> (None, Some err)
      | Inr payload \<Rightarrow>
     (case crypto_MakeEnvelope D privKey StateEnvelopeDomain StateEnvelopePayloadType payload of
        Inl err \<Rightarrow> (None, Some err)
      | Inr env \<Rightarrow>
          (Some \<lparr>peerID = p, seq = sq, addresses = addrs, envelope = env\<rparr>, None))))))"

definition SignedRoutingStateFromEnvelope ::
  "('priv, 'pub, 'id, 'addr, 'env) collab \<Rightarrow> 'env \<Rightarrow> ('id, 'addr, 'env) result" where
  "SignedRoutingStateFromEnvelope D env =
     (if bytes_Compare (env_PayloadType D env) StateEnvelopePayloadType \<noteq> 0
      then (None, Some (errors_New ''unexpected envelope payload type''))
      else
     (case proto_Unmarshal D (env_Payload D env) of
        Inl err \<Rightarrow> (None, Some err)
      | Inr msg \<Rightarrow>
     (case peer_IDFromBytes D (PeerId msg) of
        Inl err \<Rightarrow> (None, Some err)
      | Inr ident \<Rightarrow>
     (if \<not> peer_MatchesPublicKey D ident (env_PublicKey D env)
      then (None, Some (errors_New
              ''peer id in routing state record does not match signing key''))
      else (Some \<lparr>peerID = ident, seq = Seq msg,
                  addresses = addrsFromProtobuf D (Addresses msg),
                  envelope = env\<rparr>, None)))))"

definition UnmarshalSignedRoutingState ::
  "('priv, 'pub, 'id, 'addr, 'env) collab \<Rightarrow> bytes \<Rightarrow> ('id, 'addr, 'env) result" where
  "UnmarshalSignedRoutingState D envelopeBytes =
     (case crypto_OpenEnvelope D envelopeBytes StateEnvelopeDomain of
        Inl err \<Rightarrow> (None, Some err)
      | Inr env \<Rightarrow> SignedRoutingStateFromEnvelope D env)"

definition Marshal ::
  "('priv, 'pub, 'id, 'addr, 'env) collab \<Rightarrow> ('id, 'addr, 'env) SignedRoutingState \<Rightarrow>
   error + bytes" where
  "Marshal D s = env_Marshal D (envelope s)"

definition Multiaddrs :: "('id, 'addr, 'env) SignedRoutingState \<Rightarrow> 'addr list" where
  "Multiaddrs s = addresses s"

subsection \<open>Equality\<close>

text \<open>
  The loop \<^verbatim>\<open>for i, _ := range s.addresses\<close> of \<^verbatim>\<open>Equal\<close>, from index \<open>i\<close> on. Reading
  \<^verbatim>\<open>other.addresses[i]\<close> beyond the end panics in Go. The loop returns \<open>False\<close> where the
  source returns false, and \<open>True\<close> when it runs to its end.
\<close>

function Equal_loop ::
  "('priv, 'pub, 'id, 'addr, 'env) collab \<Rightarrow> 'addr list \<Rightarrow> 'addr list \<Rightarrow> nat \<Rightarrow>
   bool outcome" where
  "Equal_loop D xs ys i =
     (if i < length xs then
        (if i < length ys then
           (if \<not> ma_Equal D (xs ! i) (ys ! i) then Returns False
            else Equal_loop D xs ys (Suc i))
         else Panics)
      else Returns True)"
  by pat_completeness auto
termination
  by (relation "measure (\<lambda>(D, xs, ys, i). length xs - i)") auto

declare Equal_loop.simps [simp del]

text \<open>
  \<^verbatim>\<open>Equal\<close>, with its receiver and its argument as pointers. The test \<^verbatim>\<open>other == nil\<close>
  comes first; after it, reading \<^verbatim>\<open>s.seq\<close> through a nil receiver panics.
\<close>

definition Equal ::
  "('priv, 'pub, 'id, 'addr, 'env) collab \<Rightarrow>
   ('id, 'addr, 'env) SignedRoutingState option \<Rightarrow>
   ('id, 'addr, 'env) SignedRoutingState option \<Rightarrow> bool outcome" where
  "Equal D s other =
     (case other of
        None \<Rightarrow> Returns False
      | Some ot \<Rightarrow>
     (case s of
        None \<Rightarrow> Panics
      | Some sv \<Rightarrow>
          if seq sv \<noteq> seq ot then Returns False
          else if peerID sv \<noteq> peerID ot then Returns False
          else if length (addresses sv) \<noteq> length (addresses ot) then Returns False
          else
            (case Equal_loop D (addresses sv) (addresses ot) 0 of
               Panics \<Rightarrow> Panics
             | Returns False \<Rightarrow> Returns False
             | Returns True \<Rightarrow> Returns (env_Equal D (envelope sv) (envelope ot)))))"

subsection \<open>Contracts of the collaborators\<close>

text \<open>
  What \<^verbatim>\<open>state.go\<close> relies on from its collaborators, for the round-trip properties.
  The envelope: an envelope made by signing can be serialised, and opening the bytes
  under the same domain gives an envelope equal to it, with the same payload type,
  payload and public key.
\<close>

definition envelope_contract :: "('priv, 'pub, 'id, 'addr, 'env) collab \<Rightarrow> bool" where
  "envelope_contract D \<longleftrightarrow>
     (\<forall>k dmn ty pl e. crypto_MakeEnvelope D k dmn ty pl = Inr e \<longrightarrow>
        (\<exists>b. env_Marshal D e = Inr b) \<and>
        (\<forall>b. env_Marshal D e = Inr b \<longrightarrow>
           (\<exists>e'. crypto_OpenEnvelope D b dmn = Inr e' \<and>
                 env_Equal D e e' \<and> env_Equal D e' e \<and>
                 env_PayloadType D e' = ty \<and> env_Payload D e' = pl \<and>
                 env_PublicKey D e' = env_PublicKey D e)))"

text \<open>Opening and serialising are a byte-exact round trip.\<close>

definition open_marshal_exact :: "('priv, 'pub, 'id, 'addr, 'env) collab \<Rightarrow> bool" where
  "open_marshal_exact D \<longleftrightarrow>
     (\<forall>b dmn e. crypto_OpenEnvelope D b dmn = Inr e \<longrightarrow> env_Marshal D e = Inr b)"

text \<open>
  Identities: the identity derived from a private key matches the public key of every
  envelope signed with that key, and the binary form of an identity decodes to it.
\<close>

definition identity_contract :: "('priv, 'pub, 'id, 'addr, 'env) collab \<Rightarrow> bool" where
  "identity_contract D \<longleftrightarrow>
     (\<forall>k p dmn ty pl e.
        peer_IDFromPrivateKey D k = Inr p \<longrightarrow> crypto_MakeEnvelope D k dmn ty pl = Inr e \<longrightarrow>
        peer_MatchesPublicKey D p (env_PublicKey D e)) \<and>
     (\<forall>p b. peer_MarshalBinary D p = Inr b \<longrightarrow> peer_IDFromBytes D b = Inr p)"

text \<open>The payload codec: an encoded message decodes to itself.\<close>

definition proto_contract :: "('priv, 'pub, 'id, 'addr, 'env) collab \<Rightarrow> bool" where
  "proto_contract D \<longleftrightarrow>
     (\<forall>m b. proto_Marshal D m = Inr b \<longrightarrow> proto_Unmarshal D b = Inr m)"

text \<open>
  Addresses: a parsed address has the bytes it was parsed from, and two addresses are
  equal exactly when their bytes are.
\<close>

definition multiaddr_contract :: "('priv, 'pub, 'id, 'addr, 'env) collab \<Rightarrow> bool" where
  "multiaddr_contract D \<longleftrightarrow>
     (\<forall>b a. ma_NewMultiaddrBytes D b = Inr a \<longrightarrow> ma_Bytes D a = b) \<and>
     (\<forall>a a'. ma_Equal D a a' \<longleftrightarrow> ma_Bytes D a = ma_Bytes D a')"

text \<open>An address is well formed when its bytes parse; so is an entry of a message.\<close>

definition wellformed_bytes :: "('priv, 'pub, 'id, 'addr, 'env) collab \<Rightarrow> bytes \<Rightarrow> bool" where
  "wellformed_bytes D b = (case ma_NewMultiaddrBytes D b of Inl err \<Rightarrow> False | Inr a \<Rightarrow> True)"

definition wellformed_addr :: "('priv, 'pub, 'id, 'addr, 'env) collab \<Rightarrow> 'addr \<Rightarrow> bool" where
  "wellformed_addr D a = wellformed_bytes D (ma_Bytes D a)"

text \<open>The address that a well-formed entry parses to.\<close>

definition parsed_addr :: "('priv, 'pub, 'id, 'addr, 'env) collab \<Rightarrow> bytes \<Rightarrow> 'addr" where
  "parsed_addr D b = projr (ma_NewMultiaddrBytes D b)"

subsection \<open>A small instance of the collaborators\<close>

text \<open>
  A concrete instance, used to run the functions above on concrete inputs. Keys are
  numbers, an identity is the one nonzero byte of its public key, an address is a byte string
  and is well formed when it is not empty and has no zero byte. The payload codec writes
  the identity byte, the sequence number as one byte and one byte per address, and
  refuses what does not fit. An envelope is serialised as key byte, signature byte,
  length of the type, type, payload; the signature byte depends on the key and the domain.
\<close>

definition demo_err :: "string \<Rightarrow> error + 'a" where
  "demo_err msg = Inl (errors_New msg)"

definition demo_IDFromPrivateKey :: "nat \<Rightarrow> error + bytes" where
  "demo_IDFromPrivateKey k =
     (if 0 < k \<and> k < 256 then Inr [of_nat k] else demo_err ''demo: bad key'')"

definition demo_valid_id :: "bytes \<Rightarrow> bool" where
  "demo_valid_id b \<longleftrightarrow> length b = 1 \<and> b \<noteq> [0]"

definition demo_MarshalBinary :: "bytes \<Rightarrow> error + bytes" where
  "demo_MarshalBinary p = (if demo_valid_id p then Inr p else demo_err ''demo: bad identity'')"

definition demo_IDFromBytes :: "bytes \<Rightarrow> error + bytes" where
  "demo_IDFromBytes b = (if demo_valid_id b then Inr b else demo_err ''demo: bad identity'')"

definition demo_MatchesPublicKey :: "bytes \<Rightarrow> nat \<Rightarrow> bool" where
  "demo_MatchesPublicKey p pk \<longleftrightarrow> pk < 256 \<and> p = [of_nat pk]"

definition demo_proto_Marshal :: "RoutingStateRecord \<Rightarrow> error + bytes" where
  "demo_proto_Marshal m =
     (if length (PeerId m) = 1 \<and> Seq m < 256 \<and>
         list_all (\<lambda>a. length (Multiaddr a) = 1) (Addresses m)
      then Inr (PeerId m @ [ucast (Seq m)] @ concat (map Multiaddr (Addresses m)))
      else demo_err ''demo: message does not fit'')"

definition demo_proto_Unmarshal :: "bytes \<Rightarrow> error + RoutingStateRecord" where
  "demo_proto_Unmarshal b =
     (case b of
        p # s # rest \<Rightarrow>
          Inr \<lparr>PeerId = [p], Seq = ucast s,
               Addresses = map (\<lambda>x. \<lparr>Multiaddr = [x]\<rparr>) rest\<rparr>
      | _ \<Rightarrow> demo_err ''demo: short payload'')"

record demo_envelope =
  de_publicKey :: nat
  de_payloadType :: bytes
  de_payload :: bytes
  de_signature :: byte

definition demo_sign :: "nat \<Rightarrow> string \<Rightarrow> byte" where
  "demo_sign pk dmn = of_nat (pk + length dmn)"

definition demo_MakeEnvelope ::
  "nat \<Rightarrow> string \<Rightarrow> bytes \<Rightarrow> bytes \<Rightarrow> error + demo_envelope" where
  "demo_MakeEnvelope k dmn ty pl =
     (if k < 256 \<and> length ty < 256
      then Inr \<lparr>de_publicKey = k, de_payloadType = ty, de_payload = pl,
                de_signature = demo_sign k dmn\<rparr>
      else demo_err ''demo: cannot sign'')"

definition demo_env_Marshal :: "demo_envelope \<Rightarrow> error + bytes" where
  "demo_env_Marshal e =
     (if de_publicKey e < 256 \<and> length (de_payloadType e) < 256
      then Inr (of_nat (de_publicKey e) # de_signature e #
                of_nat (length (de_payloadType e)) # de_payloadType e @ de_payload e)
      else demo_err ''demo: cannot serialise'')"

definition demo_OpenEnvelope :: "bytes \<Rightarrow> string \<Rightarrow> error + demo_envelope" where
  "demo_OpenEnvelope b dmn =
     (case b of
        k # s # n # rest \<Rightarrow>
          if unat n \<le> length rest \<and> s = demo_sign (unat k) dmn
          then Inr \<lparr>de_publicKey = unat k, de_payloadType = take (unat n) rest,
                    de_payload = drop (unat n) rest, de_signature = s\<rparr>
          else demo_err ''demo: invalid envelope''
      | _ \<Rightarrow> demo_err ''demo: short envelope'')"

definition demo_NewMultiaddrBytes :: "bytes \<Rightarrow> error + bytes" where
  "demo_NewMultiaddrBytes b =
     (if b \<noteq> [] \<and> 0 \<notin> set b then Inr b else demo_err ''demo: invalid multiaddr'')"

definition demo :: "(nat, nat, bytes, bytes, demo_envelope) collab" where
  "demo =
     \<lparr>peer_IDFromPrivateKey = demo_IDFromPrivateKey,
      peer_MarshalBinary = demo_MarshalBinary,
      peer_IDFromBytes = demo_IDFromBytes,
      peer_MatchesPublicKey = demo_MatchesPublicKey,
      proto_Marshal = demo_proto_Marshal,
      proto_Unmarshal = demo_proto_Unmarshal,
      crypto_MakeEnvelope = demo_MakeEnvelope,
      crypto_OpenEnvelope = demo_OpenEnvelope,
      env_PayloadType = de_payloadType,
      env_Payload = de_payload,
      env_PublicKey = de_publicKey,
      env_Marshal = demo_env_Marshal,
      env_Equal = (=),
      ma_NewMultiaddrBytes = demo_NewMultiaddrBytes,
      ma_Bytes = id,
      ma_Equal = (=)\<rparr>"

text \<open>
  Concrete inputs: an envelope signed by key 5 whose payload names identity 5, sequence
  number 17 and the three address entries \<open>[1]\<close>, \<open>[0]\<close> (malformed) and \<open>[2]\<close>; the
  same payload in an envelope signed by key 6; the first envelope under another payload
  type, with a payload too short to decode, and with a payload naming the invalid
  identity 0.
\<close>

definition demo_envelope_ok :: demo_envelope where
  "demo_envelope_ok =
     \<lparr>de_publicKey = 5, de_payloadType = StateEnvelopePayloadType,
      de_payload = [5, 17, 1, 0, 2], de_signature = demo_sign 5 StateEnvelopeDomain\<rparr>"

definition demo_envelope_forged :: demo_envelope where
  "demo_envelope_forged =
     \<lparr>de_publicKey = 6, de_payloadType = StateEnvelopePayloadType,
      de_payload = [5, 17, 1, 0, 2], de_signature = demo_sign 6 StateEnvelopeDomain\<rparr>"

definition demo_envelope_other_type :: demo_envelope where
  "demo_envelope_other_type =
     \<lparr>de_publicKey = 5, de_payloadType = bytes_of_string ''/libp2p/other'',
      de_payload = [5, 17, 1, 0, 2], de_signature = demo_sign 5 StateEnvelopeDomain\<rparr>"

definition demo_envelope_short :: demo_envelope where
  "demo_envelope_short =
     \<lparr>de_publicKey = 5, de_payloadType = StateEnvelopePayloadType,
      de_payload = [5], de_signature = demo_sign 5 StateEnvelopeDomain\<rparr>"

definition demo_envelope_bad_id :: demo_envelope where
  "demo_envelope_bad_id =
     \<lparr>de_publicKey = 5, de_payloadType = StateEnvelopePayloadType,
      de_payload = [0, 17], de_signature = demo_sign 5 StateEnvelopeDomain\<rparr>"

definition demo_message :: RoutingStateRecord where
  "demo_message =
     \<lparr>PeerId = [5], Seq = 17,
      Addresses = [\<lparr>Multiaddr = [1]\<rparr>, \<lparr>Multiaddr = [0]\<rparr>, \<lparr>Multiaddr = [2]\<rparr>]\<rparr>"

definition demo_record :: "(bytes, bytes, demo_envelope) SignedRoutingState" where
  "demo_record =
     \<lparr>peerID = [5], seq = 17, addresses = [[1], [2]], envelope = demo_envelope_ok\<rparr>"

text \<open>
  The record that key 5 builds at clock reading \<open>now\<close> for the addresses \<open>addrs\<close>, whose
  payload is \<open>pl\<close>.
\<close>

definition demo_fresh ::
  "64 word \<Rightarrow> bytes list \<Rightarrow> bytes \<Rightarrow> (bytes, bytes, demo_envelope) SignedRoutingState" where
  "demo_fresh now addrs pl =
     \<lparr>peerID = [5], seq = now, addresses = addrs,
      envelope = \<lparr>de_publicKey = 5, de_payloadType = StateEnvelopePayloadType,
                  de_payload = pl, de_signature = demo_sign 5 StateEnvelopeDomain\<rparr>\<rparr>"

definition demo_wire :: bytes where
  "demo_wire = 5 # 25 # 28 # StateEnvelopePayloadType @ [5, 17, 1, 0, 2]"

section \<open>Properties\<close>

subsection \<open>The steps of parsing\<close>

lemma bytes_Compare_eq_0: "bytes_Compare a b = 0 \<longleftrightarrow> a = b"
  by (induction a b rule: bytes_Compare.induct) auto

lemma FromEnvelope_type_mismatch:
  "env_PayloadType D env \<noteq> StateEnvelopePayloadType \<Longrightarrow>
   SignedRoutingStateFromEnvelope D env =
     (None, Some (errors_New ''unexpected envelope payload type''))"
  by (simp add: SignedRoutingStateFromEnvelope_def bytes_Compare_eq_0)

lemma FromEnvelope_type_ok:
  "env_PayloadType D env = StateEnvelopePayloadType \<Longrightarrow>
   SignedRoutingStateFromEnvelope D env =
     (case proto_Unmarshal D (env_Payload D env) of
        Inl err \<Rightarrow> (None, Some err)
      | Inr msg \<Rightarrow>
     (case peer_IDFromBytes D (PeerId msg) of
        Inl err \<Rightarrow> (None, Some err)
      | Inr ident \<Rightarrow>
     (if peer_MatchesPublicKey D ident (env_PublicKey D env)
      then (Some \<lparr>peerID = ident, seq = Seq msg,
                  addresses = addrsFromProtobuf D (Addresses msg),
                  envelope = env\<rparr>, None)
      else (None, Some (errors_New
              ''peer id in routing state record does not match signing key'')))))"
  by (simp add: SignedRoutingStateFromEnvelope_def bytes_Compare_eq_0
      split: sum.splits)

lemma FromEnvelope_decode_fails:
  "env_PayloadType D env = StateEnvelopePayloadType \<Longrightarrow>
   proto_Unmarshal D (env_Payload D env) = Inl err \<Longrightarrow>
   SignedRoutingStateFromEnvelope D env = (None, Some err)"
  by (simp add: FromEnvelope_type_ok)

lemma FromEnvelope_identity_fails:
  "env_PayloadType D env = StateEnvelopePayloadType \<Longrightarrow>
   proto_Unmarshal D (env_Payload D env) = Inr msg \<Longrightarrow>
   peer_IDFromBytes D (PeerId msg) = Inl err \<Longrightarrow>
   SignedRoutingStateFromEnvelope D env = (None, Some err)"
  by (simp add: FromEnvelope_type_ok)

lemma FromEnvelope_binding_fails:
  "env_PayloadType D env = StateEnvelopePayloadType \<Longrightarrow>
   proto_Unmarshal D (env_Payload D env) = Inr msg \<Longrightarrow>
   peer_IDFromBytes D (PeerId msg) = Inr ident \<Longrightarrow>
   \<not> peer_MatchesPublicKey D ident (env_PublicKey D env) \<Longrightarrow>
   SignedRoutingStateFromEnvelope D env =
     (None, Some (errors_New ''peer id in routing state record does not match signing key''))"
  by (simp add: FromEnvelope_type_ok)

lemma FromEnvelope_succeeds:
  "env_PayloadType D env = StateEnvelopePayloadType \<Longrightarrow>
   proto_Unmarshal D (env_Payload D env) = Inr msg \<Longrightarrow>
   peer_IDFromBytes D (PeerId msg) = Inr ident \<Longrightarrow>
   peer_MatchesPublicKey D ident (env_PublicKey D env) \<Longrightarrow>
   SignedRoutingStateFromEnvelope D env =
     (Some \<lparr>peerID = ident, seq = Seq msg,
            addresses = addrsFromProtobuf D (Addresses msg), envelope = env\<rparr>, None)"
  by (simp add: FromEnvelope_type_ok)

lemma FromEnvelope_keeps_envelope:
  "SignedRoutingStateFromEnvelope D env = (Some r, None) \<Longrightarrow> envelope r = env"
  by (auto simp: SignedRoutingStateFromEnvelope_def split: if_splits sum.splits)

lemma Unmarshal_open_ok:
  "crypto_OpenEnvelope D b StateEnvelopeDomain = Inr env \<Longrightarrow>
   UnmarshalSignedRoutingState D b = SignedRoutingStateFromEnvelope D env"
  by (simp add: UnmarshalSignedRoutingState_def)

lemma Unmarshal_open_fails:
  "crypto_OpenEnvelope D b StateEnvelopeDomain = Inl err \<Longrightarrow>
   UnmarshalSignedRoutingState D b = (None, Some err)"
  by (simp add: UnmarshalSignedRoutingState_def)

lemma Unmarshal_success_opened:
  "UnmarshalSignedRoutingState D b = (Some r, None) \<Longrightarrow>
   crypto_OpenEnvelope D b StateEnvelopeDomain = Inr (envelope r)"
  by (auto simp: UnmarshalSignedRoutingState_def split: sum.splits
      dest: FromEnvelope_keeps_envelope)

lemma FromEnvelope_exclusive:
  "(fst (SignedRoutingStateFromEnvelope D env) = None) =
   (snd (SignedRoutingStateFromEnvelope D env) \<noteq> None)"
  by (simp add: SignedRoutingStateFromEnvelope_def split: sum.splits)

lemma Unmarshal_exclusive:
  "(fst (UnmarshalSignedRoutingState D b) = None) =
   (snd (UnmarshalSignedRoutingState D b) \<noteq> None)"
proof (cases "crypto_OpenEnvelope D b StateEnvelopeDomain")
  case (Inl err)
  then show ?thesis by (simp add: UnmarshalSignedRoutingState_def)
next
  case (Inr env)
  show ?thesis
    unfolding Unmarshal_open_ok [OF Inr] by (rule FromEnvelope_exclusive)
qed

subsection \<open>The address loops\<close>

lemma addrsFromProtobuf_loop_eq:
  "addrsFromProtobuf_loop D out es =
     out @ map (parsed_addr D) (filter (wellformed_bytes D) (map Multiaddr es))"
  by (induction es arbitrary: out)
     (simp_all add: parsed_addr_def wellformed_bytes_def split: sum.splits)

lemma addrsFromProtobuf_eq:
  "addrsFromProtobuf D es =
     map (parsed_addr D) (filter (wellformed_bytes D) (map Multiaddr es))"
  by (simp add: addrsFromProtobuf_def addrsFromProtobuf_loop_eq)

lemma addrsToProtobuf_loop_eq:
  "addrsToProtobuf_loop D out as = out @ map (\<lambda>a. \<lparr>Multiaddr = ma_Bytes D a\<rparr>) as"
  by (induction as arbitrary: out) simp_all

lemma addrsToProtobuf_eq:
  "addrsToProtobuf D as = map (\<lambda>a. \<lparr>Multiaddr = ma_Bytes D a\<rparr>) as"
  by (simp add: addrsToProtobuf_def addrsToProtobuf_loop_eq)

lemma parsed_bytes:
  "multiaddr_contract D \<Longrightarrow> wellformed_bytes D b \<Longrightarrow> ma_Bytes D (parsed_addr D b) = b"
  by (auto simp: multiaddr_contract_def wellformed_bytes_def parsed_addr_def
      split: sum.splits)

lemma map_filter_fixed:
  "(\<And>x. P x \<Longrightarrow> f x = x) \<Longrightarrow> map f (filter P xs) = filter P xs"
  by (induction xs) auto

lemma addrsFromProtobuf_bytes:
  "multiaddr_contract D \<Longrightarrow>
   map (ma_Bytes D) (addrsFromProtobuf D es) =
     filter (wellformed_bytes D) (map Multiaddr es)"
  by (simp add: addrsFromProtobuf_eq parsed_bytes map_filter_fixed)

lemma addrs_there_and_back:
  "addrsFromProtobuf D (addrsToProtobuf D as) =
     map (parsed_addr D) (filter (wellformed_bytes D) (map (ma_Bytes D) as))"
  by (simp add: addrsFromProtobuf_eq addrsToProtobuf_eq comp_def)

subsection \<open>The comparison loop\<close>

lemma Equal_loop_eq:
  "length xs = length ys \<Longrightarrow>
   Equal_loop D xs ys i =
     Returns (\<forall>j. i \<le> j \<and> j < length xs \<longrightarrow> ma_Equal D (xs ! j) (ys ! j))"
proof (induction D xs ys i rule: Equal_loop.induct)
  case (1 D xs ys i)
  show ?case
  proof (cases "i < length xs")
    case False
    then show ?thesis by (subst Equal_loop.simps) auto
  next
    case True
    note lt = this
    show ?thesis
    proof (cases "ma_Equal D (xs ! i) (ys ! i)")
      case False
      with lt 1(2) show ?thesis by (subst Equal_loop.simps) auto
    next
      case True
      have "(\<forall>j. i \<le> j \<and> j < length xs \<longrightarrow> ma_Equal D (xs ! j) (ys ! j)) =
            (\<forall>j. Suc i \<le> j \<and> j < length xs \<longrightarrow> ma_Equal D (xs ! j) (ys ! j))"
      proof (intro iffI allI impI)
        fix j
        assume "\<forall>j. i \<le> j \<and> j < length xs \<longrightarrow> ma_Equal D (xs ! j) (ys ! j)"
          and "Suc i \<le> j \<and> j < length xs"
        then show "ma_Equal D (xs ! j) (ys ! j)" by simp
      next
        fix j
        assume h: "\<forall>j. Suc i \<le> j \<and> j < length xs \<longrightarrow> ma_Equal D (xs ! j) (ys ! j)"
          and j: "i \<le> j \<and> j < length xs"
        show "ma_Equal D (xs ! j) (ys ! j)"
        proof (cases "j = i")
          case True
          with \<open>ma_Equal D (xs ! i) (ys ! i)\<close> show ?thesis by simp
        next
          case False
          with j have "Suc i \<le> j" by simp
          with h j show ?thesis by blast
        qed
      qed
      with lt True 1 show ?thesis by (subst Equal_loop.simps) simp
    qed
  qed
qed

lemma Equal_loop_all2:
  "length xs = length ys \<Longrightarrow>
   Equal_loop D xs ys 0 = Returns (list_all2 (ma_Equal D) xs ys)"
  by (simp add: Equal_loop_eq list_all2_conv_all_nth)

lemma Equal_Some:
  "Equal D (Some a) (Some b) =
     Returns (seq a = seq b \<and> peerID a = peerID b \<and>
              list_all2 (ma_Equal D) (addresses a) (addresses b) \<and>
              env_Equal D (envelope a) (envelope b))"
  by (auto simp: Equal_def Equal_loop_all2 dest: list_all2_lengthD split: bool.splits)

subsection \<open>The clock reading\<close>

lemma sint_nonneg_uint:
  fixes t :: "64 word"
  assumes "0 \<le> sint t"
  shows "uint t = sint t"
proof -
  have "sint t < 2 ^ 63" using sint_lt [of t] by simp
  then have "sint t < 2 ^ 64" by simp
  with assms have "take_bit 64 (sint t) = sint t" by (simp add: take_bit_int_eq_self)
  then show ?thesis by (simp add: uint_sint)
qed

lemma statelessSeqNo_monotone:
  assumes "0 \<le> sint t1" "sint t1 < sint t2"
  shows "statelessSeqNo t1 < statelessSeqNo t2"
  using assms sint_nonneg_uint [of t1] sint_nonneg_uint [of t2]
  by (simp add: statelessSeqNo_def word_less_def)

lemma Make_fields:
  "MakeSignedRoutingState D now k addrs = (Some r, None) \<Longrightarrow>
   seq r = statelessSeqNo now \<and> addresses r = addrs"
  by (auto simp: MakeSignedRoutingState_def Let_def split: sum.splits)

subsection \<open>Building, then parsing\<close>

lemma build_then_parse:
  assumes ec: "envelope_contract D" and ic: "identity_contract D" and pc: "proto_contract D"
    and mk: "MakeSignedRoutingState D now k addrs = (Some r, None)"
  shows "\<exists>b r'. Marshal D r = Inr b \<and>
           UnmarshalSignedRoutingState D b = (Some r', None) \<and>
           peerID r' = peerID r \<and> seq r' = seq r \<and>
           addresses r' =
             map (parsed_addr D) (filter (wellformed_bytes D) (map (ma_Bytes D) addrs)) \<and>
           env_Equal D (envelope r') (envelope r) \<and>
           env_Equal D (envelope r) (envelope r')"
proof -
  let ?msg = "\<lparr>PeerId = idBytes, Seq = statelessSeqNo now,
               Addresses = addrsToProtobuf D addrs\<rparr>"
  from mk obtain p idBytes payload e where
    p: "peer_IDFromPrivateKey D k = Inr p" and
    idb: "peer_MarshalBinary D p = Inr idBytes" and
    pl: "proto_Marshal D \<lparr>PeerId = idBytes, Seq = statelessSeqNo now,
           Addresses = addrsToProtobuf D addrs\<rparr> = Inr payload" and
    e: "crypto_MakeEnvelope D k StateEnvelopeDomain StateEnvelopePayloadType payload = Inr e" and
    r: "r = \<lparr>peerID = p, seq = statelessSeqNo now, addresses = addrs, envelope = e\<rparr>"
    by (auto simp: MakeSignedRoutingState_def Let_def split: sum.splits)
  from ec e obtain b where b: "env_Marshal D e = Inr b"
    unfolding envelope_contract_def by blast
  from ec e b obtain e' where
    op: "crypto_OpenEnvelope D b StateEnvelopeDomain = Inr e'" and
    eq: "env_Equal D e e'" "env_Equal D e' e" and
    ty: "env_PayloadType D e' = StateEnvelopePayloadType" and
    py: "env_Payload D e' = payload" and
    pk: "env_PublicKey D e' = env_PublicKey D e"
    unfolding envelope_contract_def by blast
  from pc pl have dec: "proto_Unmarshal D (env_Payload D e') =
      Inr \<lparr>PeerId = idBytes, Seq = statelessSeqNo now, Addresses = addrsToProtobuf D addrs\<rparr>"
    unfolding proto_contract_def py by blast
  from ic idb have idd: "peer_IDFromBytes D idBytes = Inr p"
    unfolding identity_contract_def by blast
  from ic p e have "peer_MatchesPublicKey D p (env_PublicKey D e)"
    unfolding identity_contract_def by blast
  then have mt: "peer_MatchesPublicKey D p (env_PublicKey D e')" by (simp add: pk)
  have "SignedRoutingStateFromEnvelope D e' =
      (Some \<lparr>peerID = p, seq = statelessSeqNo now,
             addresses = addrsFromProtobuf D (addrsToProtobuf D addrs), envelope = e'\<rparr>, None)"
    using FromEnvelope_succeeds [OF ty dec] idd mt by simp
  then have "UnmarshalSignedRoutingState D b =
      (Some \<lparr>peerID = p, seq = statelessSeqNo now,
             addresses = map (parsed_addr D)
               (filter (wellformed_bytes D) (map (ma_Bytes D) addrs)),
             envelope = e'\<rparr>, None)"
    by (simp add: Unmarshal_open_ok [OF op] addrs_there_and_back)
  with b r eq show ?thesis by (simp add: Marshal_def)
qed

lemma wellformed_all_parse_back:
  assumes mc: "multiaddr_contract D" and wf: "list_all (wellformed_addr D) addrs"
  shows "list_all2 (ma_Equal D)
           (map (parsed_addr D) (filter (wellformed_bytes D) (map (ma_Bytes D) addrs))) addrs"
    and "list_all2 (ma_Equal D) addrs
           (map (parsed_addr D) (filter (wellformed_bytes D) (map (ma_Bytes D) addrs)))"
proof -
  have all: "filter (wellformed_bytes D) (map (ma_Bytes D) addrs) = map (ma_Bytes D) addrs"
    using wf by (induction addrs) (simp_all add: wellformed_addr_def)
  have eq: "\<And>a a'. ma_Equal D a a' \<longleftrightarrow> ma_Bytes D a = ma_Bytes D a'"
    using mc unfolding multiaddr_contract_def by blast
  have rt: "\<And>a. a \<in> set addrs \<Longrightarrow>
      ma_Bytes D (parsed_addr D (ma_Bytes D a)) = ma_Bytes D a"
    using wf mc by (simp add: parsed_bytes list_all_iff wellformed_addr_def)
  show "list_all2 (ma_Equal D)
           (map (parsed_addr D) (filter (wellformed_bytes D) (map (ma_Bytes D) addrs))) addrs"
    unfolding all by (simp add: list_all2_conv_all_nth eq rt)
  show "list_all2 (ma_Equal D) addrs
           (map (parsed_addr D) (filter (wellformed_bytes D) (map (ma_Bytes D) addrs)))"
    unfolding all by (simp add: list_all2_conv_all_nth eq rt)
qed

subsection \<open>The small instance keeps the contracts\<close>

lemma byte_of_nat_unat: "k < 256 \<Longrightarrow> unat (of_nat k :: byte) = k"
  by (simp add: unat_of_nat take_bit_nat_eq_self)

lemma byte_unat_less: "unat (k :: byte) < 256"
  using unsigned_less [of k, where 'a = nat] by simp

lemma seq_through_byte: "s < 256 \<Longrightarrow> ucast (ucast s :: byte) = (s :: 64 word)"
proof -
  assume "s < 256"
  then have "unat s < 256" by (simp add: word_less_nat_alt)
  then have "take_bit 8 (unat s) = unat s" by (simp add: take_bit_nat_eq_self)
  then have "unat (ucast (ucast s :: byte) :: 64 word) = unat s"
    by (simp add: unsigned_ucast_eq unsigned_take_bit_eq)
  then show ?thesis by (simp add: word_unat_eq_iff)
qed

lemma single_bytes_split:
  "list_all (\<lambda>a. length (Multiaddr a) = 1) es \<Longrightarrow>
   map (\<lambda>x. \<lparr>Multiaddr = [x]\<rparr>) (concat (map Multiaddr es)) = es"
proof (induction es)
  case Nil
  then show ?case by simp
next
  case (Cons e es)
  then obtain x where "Multiaddr e = [x]"
    by (cases "Multiaddr e") auto
  with Cons show ?case by simp
qed

lemma demo_multiaddr_contract: "multiaddr_contract demo"
  by (auto simp: multiaddr_contract_def demo_def demo_NewMultiaddrBytes_def demo_err_def
      split: if_splits)

lemma demo_proto_contract: "proto_contract demo"
proof -
  have "demo_proto_Unmarshal b = Inr m" if "demo_proto_Marshal m = Inr b" for m b
  proof -
    define fits where "fits \<longleftrightarrow> length (PeerId m) = 1 \<and> Seq m < 256 \<and>
        list_all (\<lambda>a. length (Multiaddr a) = 1) (Addresses m)"
    have unfold: "demo_proto_Marshal m =
        (if fits then Inr (PeerId m @ [ucast (Seq m)] @ concat (map Multiaddr (Addresses m)))
         else demo_err ''demo: message does not fit'')"
      by (simp only: demo_proto_Marshal_def fits_def)
    have fits: fits
    proof (rule ccontr)
      assume "\<not> fits"
      with that unfold show False by (simp add: demo_err_def)
    qed
    with that unfold
    have b: "b = PeerId m @ [ucast (Seq m)] @ concat (map Multiaddr (Addresses m))"
      by simp
    from fits have len: "length (PeerId m) = 1" and sq: "Seq m < 256"
      and one: "list_all (\<lambda>a. length (Multiaddr a) = 1) (Addresses m)"
      by (simp_all only: fits_def)
    from len obtain p where p: "PeerId m = [p]"
      by (cases "PeerId m") auto
    have m: "\<lparr>PeerId = [p], Seq = Seq m, Addresses = Addresses m\<rparr> = m"
      using p by (cases m) simp
    show ?thesis
      by (simp add: b p demo_proto_Unmarshal_def seq_through_byte [OF sq]
          single_bytes_split [OF one] m)
  qed
  then show ?thesis by (simp add: proto_contract_def demo_def)
qed

lemma demo_identity_contract: "identity_contract demo"
  by (auto simp: identity_contract_def demo_def demo_IDFromPrivateKey_def
      demo_MarshalBinary_def demo_IDFromBytes_def demo_MatchesPublicKey_def
      demo_MakeEnvelope_def demo_err_def split: if_splits)

lemma demo_open_marshal_exact: "open_marshal_exact demo"
proof -
  have "demo_env_Marshal e = Inr b" if "demo_OpenEnvelope b dmn = Inr e" for b dmn e
  proof -
    from that obtain k s n rest where b: "b = k # s # n # rest"
      and n: "unat n \<le> length rest"
      and e: "e = \<lparr>de_publicKey = unat k, de_payloadType = take (unat n) rest,
                   de_payload = drop (unat n) rest, de_signature = s\<rparr>"
      by (auto simp: demo_OpenEnvelope_def demo_err_def split: list.splits if_splits)
    from n have "length (take (unat n) rest) = unat n" by simp
    then show ?thesis
      by (simp add: demo_env_Marshal_def b e byte_unat_less)
  qed
  then show ?thesis by (simp add: open_marshal_exact_def demo_def)
qed

lemma demo_make_then_open:
  assumes "demo_MakeEnvelope k dmn ty pl = Inr e"
  shows "demo_env_Marshal e =
           Inr (of_nat k # demo_sign k dmn # of_nat (length ty) # ty @ pl)"
    and "demo_OpenEnvelope (of_nat k # demo_sign k dmn # of_nat (length ty) # ty @ pl) dmn =
           Inr e"
    and "de_payloadType e = ty" and "de_payload e = pl"
proof -
  from assms have k: "k < 256" and ty: "length ty < 256"
    and e: "e = \<lparr>de_publicKey = k, de_payloadType = ty, de_payload = pl,
                 de_signature = demo_sign k dmn\<rparr>"
    by (auto simp: demo_MakeEnvelope_def demo_err_def split: if_splits)
  show "demo_env_Marshal e =
           Inr (of_nat k # demo_sign k dmn # of_nat (length ty) # ty @ pl)"
    by (simp add: demo_env_Marshal_def e k ty)
  show "demo_OpenEnvelope (of_nat k # demo_sign k dmn # of_nat (length ty) # ty @ pl) dmn =
           Inr e"
    by (simp add: demo_OpenEnvelope_def e byte_of_nat_unat [OF k] byte_of_nat_unat [OF ty])
  show "de_payloadType e = ty" and "de_payload e = pl"
    by (simp_all add: e)
qed

lemma demo_envelope_contract: "envelope_contract demo"
  unfolding envelope_contract_def
  by (auto simp: demo_def demo_make_then_open)

subsection \<open>The small instance on its inputs\<close>

lemmas demo_functions =
  demo_def demo_err_def demo_IDFromPrivateKey_def demo_valid_id_def demo_MarshalBinary_def
  demo_IDFromBytes_def demo_MatchesPublicKey_def demo_proto_Marshal_def
  demo_proto_Unmarshal_def demo_sign_def demo_MakeEnvelope_def demo_env_Marshal_def
  demo_OpenEnvelope_def demo_NewMultiaddrBytes_def

lemmas demo_inputs =
  demo_envelope_ok_def demo_envelope_forged_def demo_envelope_other_type_def
  demo_envelope_short_def demo_envelope_bad_id_def demo_message_def demo_record_def
  demo_fresh_def demo_wire_def

lemma payload_type_bytes:
  "StateEnvelopePayloadType =
     [47, 108, 105, 98, 112, 50, 112, 47, 114, 111, 117, 116, 105, 110, 103, 45, 115, 116,
      97, 116, 101, 45, 114, 101, 99, 111, 114, 100]"
  by (simp add: StateEnvelopePayloadType_def bytes_of_string_def)

lemma demo_ok_steps:
  "env_PayloadType demo demo_envelope_ok = StateEnvelopePayloadType"
  "proto_Unmarshal demo (env_Payload demo demo_envelope_ok) = Inr demo_message"
  "peer_IDFromBytes demo (PeerId demo_message) = Inr [5]"
  "peer_MatchesPublicKey demo [5] (env_PublicKey demo demo_envelope_ok)"
  by (simp_all add: demo_functions demo_inputs)

lemma demo_forged_steps:
  "env_PayloadType demo demo_envelope_forged = StateEnvelopePayloadType"
  "proto_Unmarshal demo (env_Payload demo demo_envelope_forged) = Inr demo_message"
  "\<not> peer_MatchesPublicKey demo [5] (env_PublicKey demo demo_envelope_forged)"
  by (simp_all add: demo_functions demo_inputs)

lemma demo_other_type_steps:
  "env_PayloadType demo demo_envelope_other_type \<noteq> StateEnvelopePayloadType"
  by (simp add: demo_functions demo_inputs payload_type_bytes bytes_of_string_def)

lemma demo_short_steps:
  "env_PayloadType demo demo_envelope_short = StateEnvelopePayloadType"
  "proto_Unmarshal demo (env_Payload demo demo_envelope_short) =
     Inl (errors_New ''demo: short payload'')"
  by (simp_all add: demo_functions demo_inputs)

lemma demo_bad_id_steps:
  "env_PayloadType demo demo_envelope_bad_id = StateEnvelopePayloadType"
  "proto_Unmarshal demo (env_Payload demo demo_envelope_bad_id) =
     Inr \<lparr>PeerId = [0], Seq = 17, Addresses = []\<rparr>"
  "peer_IDFromBytes demo [0] = Inl (errors_New ''demo: bad identity'')"
  by (simp_all add: demo_functions demo_inputs)

lemma demo_addresses:
  "addrsFromProtobuf demo
     [\<lparr>Multiaddr = [1]\<rparr>, \<lparr>Multiaddr = [0]\<rparr>, \<lparr>Multiaddr = [2]\<rparr>] = [[1], [2]]"
  "wellformed_bytes demo [1]" "\<not> wellformed_bytes demo [0]" "wellformed_bytes demo [2]"
  "parsed_addr demo [1] = [1]" "parsed_addr demo [2] = [2]"
  by (simp_all add: addrsFromProtobuf_def wellformed_bytes_def parsed_addr_def
      demo_functions demo_inputs)

lemma demo_open_wire:
  "crypto_OpenEnvelope demo demo_wire StateEnvelopeDomain = Inr demo_envelope_ok"
  by (simp add: demo_functions demo_inputs payload_type_bytes StateEnvelopeDomain_def)

lemma demo_open_empty:
  "crypto_OpenEnvelope demo [] StateEnvelopeDomain = Inl (errors_New ''demo: short envelope'')"
  by (simp add: demo_functions)

lemma demo_build:
  "MakeSignedRoutingState demo 17 5 [[1], [0], [2]] =
     (Some (demo_fresh 17 [[1], [0], [2]] [5, 17, 1, 0, 2]), None)"
  "MakeSignedRoutingState demo 18 5 [[1], [0], [2]] =
     (Some (demo_fresh 18 [[1], [0], [2]] [5, 18, 1, 0, 2]), None)"
  "MakeSignedRoutingState demo 17 5 [[1], [2]] =
     (Some (demo_fresh 17 [[1], [2]] [5, 17, 1, 2]), None)"
  by (simp_all add: MakeSignedRoutingState_def statelessSeqNo_def addrsToProtobuf_def
      demo_functions demo_inputs payload_type_bytes)

section \<open>The claims\<close>

text \<open>
  C1: when the payload type is the expected one, the payload decodes and its identity
  bytes decode to an identity, an identity that does not match the public key of the
  envelope makes \<open>SignedRoutingStateFromEnvelope\<close> return no record and the error
  "peer id in routing state record does not match signing key", and so does
  \<open>UnmarshalSignedRoutingState\<close> on bytes that open to this envelope; an identity that
  matches passes the check, and the record is returned.
\<close>

theorem identity_binding_check:
  assumes "env_PayloadType D env = StateEnvelopePayloadType"
    and "proto_Unmarshal D (env_Payload D env) = Inr msg"
    and "peer_IDFromBytes D (PeerId msg) = Inr ident"
  shows "(\<not> peer_MatchesPublicKey D ident (env_PublicKey D env) \<longrightarrow>
            SignedRoutingStateFromEnvelope D env =
              (None, Some (errors_New
                 ''peer id in routing state record does not match signing key'')) \<and>
            (\<forall>b. crypto_OpenEnvelope D b StateEnvelopeDomain = Inr env \<longrightarrow>
               UnmarshalSignedRoutingState D b =
                 (None, Some (errors_New
                    ''peer id in routing state record does not match signing key'')))) \<and>
         (peer_MatchesPublicKey D ident (env_PublicKey D env) \<longrightarrow>
            SignedRoutingStateFromEnvelope D env =
              (Some \<lparr>peerID = ident, seq = Seq msg,
                     addresses = addrsFromProtobuf D (Addresses msg), envelope = env\<rparr>,
               None))"
proof (intro conjI impI allI)
  assume no: "\<not> peer_MatchesPublicKey D ident (env_PublicKey D env)"
  show rejected: "SignedRoutingStateFromEnvelope D env =
      (None, Some (errors_New ''peer id in routing state record does not match signing key''))"
    using assms no by (rule FromEnvelope_binding_fails)
  fix b
  assume "crypto_OpenEnvelope D b StateEnvelopeDomain = Inr env"
  then show "UnmarshalSignedRoutingState D b =
      (None, Some (errors_New ''peer id in routing state record does not match signing key''))"
    by (simp only: Unmarshal_open_ok rejected)
next
  assume "peer_MatchesPublicKey D ident (env_PublicKey D env)"
  with assms show "SignedRoutingStateFromEnvelope D env =
      (Some \<lparr>peerID = ident, seq = Seq msg,
             addresses = addrsFromProtobuf D (Addresses msg), envelope = env\<rparr>, None)"
    by (rule FromEnvelope_succeeds)
qed

theorem identity_binding_check_witness:
  "\<not> peer_MatchesPublicKey demo [5] (env_PublicKey demo demo_envelope_forged) \<and>
   SignedRoutingStateFromEnvelope demo demo_envelope_forged =
     (None, Some (errors_New ''peer id in routing state record does not match signing key'')) \<and>
   UnmarshalSignedRoutingState demo demo_wire = (Some demo_record, None)"
proof -
  have "SignedRoutingStateFromEnvelope demo demo_envelope_ok = (Some demo_record, None)"
    using identity_binding_check [OF demo_ok_steps(1,2,3)] demo_ok_steps(4)
    by (simp add: demo_addresses demo_record_def demo_message_def)
  then have "UnmarshalSignedRoutingState demo demo_wire = (Some demo_record, None)"
    by (simp add: Unmarshal_open_ok [OF demo_open_wire])
  then show ?thesis
    using identity_binding_check [OF demo_forged_steps(1,2) demo_ok_steps(3)]
      demo_forged_steps(3)
    by simp
qed

text \<open>
  C2: an envelope whose payload type differs from \<open>StateEnvelopePayloadType\<close> makes
  \<open>SignedRoutingStateFromEnvelope\<close> return no record and the error "unexpected envelope
  payload type", and so does \<open>UnmarshalSignedRoutingState\<close> on bytes that open to it; with
  the expected payload type the check passes, and the result is that of the steps that
  follow: decoding the payload, decoding the identity, the identity check.
\<close>

theorem payload_type_check:
  "(env_PayloadType D env \<noteq> StateEnvelopePayloadType \<longrightarrow>
      SignedRoutingStateFromEnvelope D env =
        (None, Some (errors_New ''unexpected envelope payload type'')) \<and>
      (\<forall>b. crypto_OpenEnvelope D b StateEnvelopeDomain = Inr env \<longrightarrow>
         UnmarshalSignedRoutingState D b =
           (None, Some (errors_New ''unexpected envelope payload type'')))) \<and>
   (env_PayloadType D env = StateEnvelopePayloadType \<longrightarrow>
      SignedRoutingStateFromEnvelope D env =
        (case proto_Unmarshal D (env_Payload D env) of
           Inl err \<Rightarrow> (None, Some err)
         | Inr msg \<Rightarrow>
        (case peer_IDFromBytes D (PeerId msg) of
           Inl err \<Rightarrow> (None, Some err)
         | Inr ident \<Rightarrow>
        (if peer_MatchesPublicKey D ident (env_PublicKey D env)
         then (Some \<lparr>peerID = ident, seq = Seq msg,
                     addresses = addrsFromProtobuf D (Addresses msg),
                     envelope = env\<rparr>, None)
         else (None, Some (errors_New
                 ''peer id in routing state record does not match signing key''))))))"
proof (intro conjI impI allI)
  assume ne: "env_PayloadType D env \<noteq> StateEnvelopePayloadType"
  then show rejected: "SignedRoutingStateFromEnvelope D env =
      (None, Some (errors_New ''unexpected envelope payload type''))"
    by (rule FromEnvelope_type_mismatch)
  fix b
  assume "crypto_OpenEnvelope D b StateEnvelopeDomain = Inr env"
  then show "UnmarshalSignedRoutingState D b =
      (None, Some (errors_New ''unexpected envelope payload type''))"
    by (simp only: Unmarshal_open_ok rejected)
next
  assume "env_PayloadType D env = StateEnvelopePayloadType"
  then show "SignedRoutingStateFromEnvelope D env =
        (case proto_Unmarshal D (env_Payload D env) of
           Inl err \<Rightarrow> (None, Some err)
         | Inr msg \<Rightarrow>
        (case peer_IDFromBytes D (PeerId msg) of
           Inl err \<Rightarrow> (None, Some err)
         | Inr ident \<Rightarrow>
        (if peer_MatchesPublicKey D ident (env_PublicKey D env)
         then (Some \<lparr>peerID = ident, seq = Seq msg,
                     addresses = addrsFromProtobuf D (Addresses msg),
                     envelope = env\<rparr>, None)
         else (None, Some (errors_New
                 ''peer id in routing state record does not match signing key'')))))"
    by (rule FromEnvelope_type_ok)
qed

theorem payload_type_check_witness:
  "env_PayloadType demo demo_envelope_other_type \<noteq> StateEnvelopePayloadType \<and>
   SignedRoutingStateFromEnvelope demo demo_envelope_other_type =
     (None, Some (errors_New ''unexpected envelope payload type'')) \<and>
   env_PayloadType demo demo_envelope_ok = StateEnvelopePayloadType \<and>
   SignedRoutingStateFromEnvelope demo demo_envelope_ok = (Some demo_record, None)"
  using payload_type_check [of demo demo_envelope_other_type]
    payload_type_check [of demo demo_envelope_ok]
    demo_other_type_steps demo_ok_steps
  by (simp add: demo_addresses demo_record_def demo_message_def)

text \<open>
  C3: under the contracts of the collaborators (envelope, identities, payload codec,
  addresses), a record \<open>r\<close> built by \<open>MakeSignedRoutingState\<close> from a key and a list of
  well-formed addresses can be serialised, \<open>UnmarshalSignedRoutingState\<close> succeeds on the
  bytes, and the record it returns is equal to \<open>r\<close> under \<open>Equal\<close>, in both directions.
\<close>

theorem build_marshal_parse_roundtrip:
  assumes "envelope_contract D" and "identity_contract D" and "proto_contract D"
    and "multiaddr_contract D"
    and "list_all (wellformed_addr D) addrs"
    and "MakeSignedRoutingState D now privKey addrs = (Some r, None)"
  shows "\<exists>b r'. Marshal D r = Inr b \<and>
           UnmarshalSignedRoutingState D b = (Some r', None) \<and>
           Equal D (Some r') (Some r) = Returns True \<and>
           Equal D (Some r) (Some r') = Returns True"
proof -
  from build_then_parse [OF assms(1,2,3,6)] obtain b r' where
    b: "Marshal D r = Inr b" and
    u: "UnmarshalSignedRoutingState D b = (Some r', None)" and
    f: "peerID r' = peerID r" "seq r' = seq r" and
    a: "addresses r' =
          map (parsed_addr D) (filter (wellformed_bytes D) (map (ma_Bytes D) addrs))" and
    e: "env_Equal D (envelope r') (envelope r)" "env_Equal D (envelope r) (envelope r')"
    by blast
  from assms(6) have ra: "addresses r = addrs"
    by (simp add: Make_fields)
  have "Equal D (Some r') (Some r) = Returns True"
    using wellformed_all_parse_back(1) [OF assms(4,5)] f e
    by (simp add: Equal_Some a ra)
  moreover have "Equal D (Some r) (Some r') = Returns True"
    using wellformed_all_parse_back(2) [OF assms(4,5)] f e
    by (simp add: Equal_Some a ra)
  ultimately show ?thesis using b u by blast
qed

theorem build_marshal_parse_roundtrip_witness:
  "list_all (wellformed_addr demo) [[1], [2]] \<and>
   MakeSignedRoutingState demo 17 5 [[1], [2]] =
     (Some (demo_fresh 17 [[1], [2]] [5, 17, 1, 2]), None) \<and>
   (\<exists>b r'. Marshal demo (demo_fresh 17 [[1], [2]] [5, 17, 1, 2]) = Inr b \<and>
      UnmarshalSignedRoutingState demo b = (Some r', None) \<and>
      Equal demo (Some r') (Some (demo_fresh 17 [[1], [2]] [5, 17, 1, 2])) = Returns True \<and>
      Equal demo (Some (demo_fresh 17 [[1], [2]] [5, 17, 1, 2])) (Some r') = Returns True)"
proof -
  have wf: "list_all (wellformed_addr demo) [[1], [2]]"
    by (simp add: wellformed_addr_def wellformed_bytes_def demo_functions)
  from build_marshal_parse_roundtrip [OF demo_envelope_contract demo_identity_contract
      demo_proto_contract demo_multiaddr_contract wf demo_build(3)]
  show ?thesis using wf demo_build(3) by simp
qed

text \<open>
  C4: \<open>addrsFromProtobuf\<close> never fails; it returns the addresses parsed from the
  well-formed entries, in the order of the entries, and nothing for the malformed ones
  (when a parsed address has the bytes it was parsed from, the bytes of the result are
  the well-formed entries themselves, none moved and none merged). When the steps
  before it pass, \<open>SignedRoutingStateFromEnvelope\<close> returns a record with these addresses
  and no error, whatever entries are malformed: the error it returns, if any, is the
  same under every address parser.
\<close>

theorem malformed_addresses_dropped:
  "addrsFromProtobuf D es =
     map (parsed_addr D) (filter (wellformed_bytes D) (map Multiaddr es)) \<and>
   (multiaddr_contract D \<longrightarrow>
      map (ma_Bytes D) (addrsFromProtobuf D es) =
        filter (wellformed_bytes D) (map Multiaddr es)) \<and>
   (env_PayloadType D env = StateEnvelopePayloadType \<longrightarrow>
    proto_Unmarshal D (env_Payload D env) = Inr msg \<longrightarrow>
    peer_IDFromBytes D (PeerId msg) = Inr ident \<longrightarrow>
    peer_MatchesPublicKey D ident (env_PublicKey D env) \<longrightarrow>
      (\<exists>r. SignedRoutingStateFromEnvelope D env = (Some r, None) \<and>
           Multiaddrs r =
             map (parsed_addr D)
               (filter (wellformed_bytes D) (map Multiaddr (Addresses msg))))) \<and>
   snd (SignedRoutingStateFromEnvelope (D\<lparr>ma_NewMultiaddrBytes := parse\<rparr>) env) =
     snd (SignedRoutingStateFromEnvelope D env)"
proof (intro conjI impI)
  show "addrsFromProtobuf D es =
      map (parsed_addr D) (filter (wellformed_bytes D) (map Multiaddr es))"
    by (rule addrsFromProtobuf_eq)
next
  show "snd (SignedRoutingStateFromEnvelope (D\<lparr>ma_NewMultiaddrBytes := parse\<rparr>) env) =
      snd (SignedRoutingStateFromEnvelope D env)"
    by (simp add: SignedRoutingStateFromEnvelope_def split: sum.splits)
next
  assume "multiaddr_contract D"
  then show "map (ma_Bytes D) (addrsFromProtobuf D es) =
      filter (wellformed_bytes D) (map Multiaddr es)"
    by (rule addrsFromProtobuf_bytes)
next
  assume "env_PayloadType D env = StateEnvelopePayloadType"
    and "proto_Unmarshal D (env_Payload D env) = Inr msg"
    and "peer_IDFromBytes D (PeerId msg) = Inr ident"
    and "peer_MatchesPublicKey D ident (env_PublicKey D env)"
  then have "SignedRoutingStateFromEnvelope D env =
      (Some \<lparr>peerID = ident, seq = Seq msg,
             addresses = addrsFromProtobuf D (Addresses msg), envelope = env\<rparr>, None)"
    by (rule FromEnvelope_succeeds)
  then show "\<exists>r. SignedRoutingStateFromEnvelope D env = (Some r, None) \<and>
      Multiaddrs r =
        map (parsed_addr D) (filter (wellformed_bytes D) (map Multiaddr (Addresses msg)))"
    by (simp add: Multiaddrs_def addrsFromProtobuf_eq)
qed

theorem malformed_addresses_dropped_witness:
  "map Multiaddr (Addresses demo_message) = [[1], [0], [2]] \<and>
   wellformed_bytes demo [1] \<and> \<not> wellformed_bytes demo [0] \<and> wellformed_bytes demo [2] \<and>
   map (ma_Bytes demo) (addrsFromProtobuf demo (Addresses demo_message)) = [[1], [2]] \<and>
   (\<exists>r. SignedRoutingStateFromEnvelope demo demo_envelope_ok = (Some r, None) \<and>
        Multiaddrs r = [[1], [2]])"
  using malformed_addresses_dropped [where D = demo and es = "Addresses demo_message"
      and env = demo_envelope_ok and msg = demo_message and ident = "[5]"
      and parse = demo_NewMultiaddrBytes]
    demo_multiaddr_contract demo_ok_steps
  by (simp add: demo_message_def demo_addresses)

text \<open>
  C5: \<open>Marshal\<close> serialises the envelope kept in the record. A record parsed from an
  envelope keeps that envelope, so when opening and serialising are a byte-exact round
  trip, \<open>Marshal\<close> of a record parsed from bytes \<open>b\<close> returns \<open>b\<close>.
\<close>

theorem marshal_reproduces_wire_bytes:
  "Marshal D s = env_Marshal D (envelope s) \<and>
   (SignedRoutingStateFromEnvelope D env = (Some r, None) \<longrightarrow> envelope r = env) \<and>
   (open_marshal_exact D \<longrightarrow> UnmarshalSignedRoutingState D b = (Some r', None) \<longrightarrow>
      Marshal D r' = Inr b)"
proof (intro conjI impI)
  show "Marshal D s = env_Marshal D (envelope s)"
    by (simp add: Marshal_def)
next
  assume "SignedRoutingStateFromEnvelope D env = (Some r, None)"
  then show "envelope r = env" by (rule FromEnvelope_keeps_envelope)
next
  assume ex: "open_marshal_exact D"
    and "UnmarshalSignedRoutingState D b = (Some r', None)"
  then have "crypto_OpenEnvelope D b StateEnvelopeDomain = Inr (envelope r')"
    by (simp add: Unmarshal_success_opened)
  with ex have "env_Marshal D (envelope r') = Inr b"
    unfolding open_marshal_exact_def by blast
  then show "Marshal D r' = Inr b" by (simp add: Marshal_def)
qed

theorem marshal_reproduces_wire_bytes_witness:
  "open_marshal_exact demo \<and>
   UnmarshalSignedRoutingState demo demo_wire = (Some demo_record, None) \<and>
   Marshal demo demo_record = Inr demo_wire"
proof -
  have "SignedRoutingStateFromEnvelope demo demo_envelope_ok = (Some demo_record, None)"
    using FromEnvelope_succeeds [OF demo_ok_steps]
    by (simp add: demo_addresses demo_record_def demo_message_def)
  then have u: "UnmarshalSignedRoutingState demo demo_wire = (Some demo_record, None)"
    by (simp add: Unmarshal_open_ok [OF demo_open_wire])
  with marshal_reproduces_wire_bytes [where D = demo and b = demo_wire and r' = demo_record]
    demo_open_marshal_exact
  have "Marshal demo demo_record = Inr demo_wire" by blast
  with demo_open_marshal_exact u show ?thesis by blast
qed

text \<open>
  C6: on two records, \<open>Equal\<close> returns true exactly when the sequence numbers are equal,
  the identities are equal, the address lists have the same length and equal addresses at
  every position, and the envelopes are equal. In particular it returns false on two
  records whose address lists hold the same addresses in another order, unequal at some
  position.
\<close>

theorem Equal_characterisation:
  "Equal D (Some a) (Some b) =
     Returns (seq a = seq b \<and> peerID a = peerID b \<and>
              length (addresses a) = length (addresses b) \<and>
              (\<forall>i < length (addresses a). ma_Equal D (addresses a ! i) (addresses b ! i)) \<and>
              env_Equal D (envelope a) (envelope b)) \<and>
   (mset (addresses b) = mset (addresses a) \<longrightarrow>
    (\<exists>i < length (addresses a). \<not> ma_Equal D (addresses a ! i) (addresses b ! i)) \<longrightarrow>
      Equal D (Some a) (Some b) = Returns False)"
proof -
  have char: "Equal D (Some a) (Some b) =
     Returns (seq a = seq b \<and> peerID a = peerID b \<and>
              length (addresses a) = length (addresses b) \<and>
              (\<forall>i < length (addresses a). ma_Equal D (addresses a ! i) (addresses b ! i)) \<and>
              env_Equal D (envelope a) (envelope b))"
    by (simp add: Equal_Some list_all2_conv_all_nth)
  have "Equal D (Some a) (Some b) = Returns False"
    if "\<exists>i < length (addresses a). \<not> ma_Equal D (addresses a ! i) (addresses b ! i)"
    using that unfolding char by blast
  with char show ?thesis by blast
qed

theorem Equal_characterisation_witness:
  "Equal demo (Some demo_record) (Some demo_record) = Returns True \<and>
   mset (addresses (demo_record\<lparr>addresses := [[2], [1]]\<rparr>)) = mset (addresses demo_record) \<and>
   Equal demo (Some demo_record) (Some (demo_record\<lparr>addresses := [[2], [1]]\<rparr>)) =
     Returns False"
proof -
  have swapped: "mset (addresses (demo_record\<lparr>addresses := [[2], [1]]\<rparr>)) =
      mset (addresses demo_record)"
    by (simp add: demo_record_def)
  have differ: "\<exists>i < length (addresses demo_record).
      \<not> ma_Equal demo (addresses demo_record ! i)
          (addresses (demo_record\<lparr>addresses := [[2], [1]]\<rparr>) ! i)"
    by (rule exI [of _ 0]) (simp add: demo_record_def demo_def)
  have same: "\<forall>i < length (addresses demo_record).
      ma_Equal demo (addresses demo_record ! i) (addresses demo_record ! i)"
    by (simp add: demo_def)
  have "Equal demo (Some demo_record) (Some demo_record) = Returns True"
    using Equal_characterisation [of demo demo_record demo_record] same
    by (simp add: demo_def)
  moreover have "Equal demo (Some demo_record)
      (Some (demo_record\<lparr>addresses := [[2], [1]]\<rparr>)) = Returns False"
    using Equal_characterisation [of demo demo_record "demo_record\<lparr>addresses := [[2], [1]]\<rparr>"]
      swapped differ
    by blast
  ultimately show ?thesis using swapped by blast
qed

text \<open>
  C7: the sequence number of a record built by \<open>MakeSignedRoutingState\<close> is the clock
  reading, a signed 64-bit count of nanoseconds, converted to an unsigned 64-bit integer
  (its value modulo \<open>2 ^ 64\<close>). So two builds at clock readings \<open>t1 < t2\<close>, with \<open>t1\<close> not
  before the epoch, give sequence numbers in the same strict order.
\<close>

theorem sequence_number_from_clock:
  assumes "MakeSignedRoutingState D t1 privKey addrs1 = (Some r1, None)"
    and "MakeSignedRoutingState D t2 privKey addrs2 = (Some r2, None)"
  shows "uint (seq r1) = sint t1 mod 2 ^ 64 \<and>
         uint (seq r2) = sint t2 mod 2 ^ 64 \<and>
         (0 \<le> sint t1 \<longrightarrow> sint t1 < sint t2 \<longrightarrow> seq r1 < seq r2)"
proof -
  from assms have s: "seq r1 = statelessSeqNo t1" "seq r2 = statelessSeqNo t2"
    by (simp_all add: Make_fields)
  have "uint (statelessSeqNo t) = sint t mod 2 ^ 64" for t
    unfolding statelessSeqNo_def by (simp only: uint_word_of_int) simp
  with s statelessSeqNo_monotone [of t1 t2] show ?thesis by simp
qed

theorem sequence_number_from_clock_witness:
  "0 \<le> sint (17 :: 64 word) \<and> sint (17 :: 64 word) < sint (18 :: 64 word) \<and>
   MakeSignedRoutingState demo 17 5 [[1], [0], [2]] =
     (Some (demo_fresh 17 [[1], [0], [2]] [5, 17, 1, 0, 2]), None) \<and>
   MakeSignedRoutingState demo 18 5 [[1], [0], [2]] =
     (Some (demo_fresh 18 [[1], [0], [2]] [5, 18, 1, 0, 2]), None) \<and>
   seq (demo_fresh 17 [[1], [0], [2]] [5, 17, 1, 0, 2]) <
     seq (demo_fresh 18 [[1], [0], [2]] [5, 18, 1, 0, 2])"
proof -
  have t: "0 \<le> sint (17 :: 64 word)" "sint (17 :: 64 word) < sint (18 :: 64 word)"
    by simp_all
  from sequence_number_from_clock [OF demo_build(1) demo_build(2)] t
  have "seq (demo_fresh 17 [[1], [0], [2]] [5, 17, 1, 0, 2]) <
      seq (demo_fresh 18 [[1], [0], [2]] [5, 18, 1, 0, 2])"
    by blast
  with t demo_build(1,2) show ?thesis by blast
qed

text \<open>
  C8: both parsing functions return either a record and no error, or an error and no
  record. Each failure gives an error and the nil record: the envelope does not open,
  the payload type is not the expected one, the payload does not decode, the identity
  bytes do not decode, the identity does not match the public key of the envelope.
\<close>

theorem parse_failure_returns_no_record:
  "(fst (SignedRoutingStateFromEnvelope D env) = None) =
     (snd (SignedRoutingStateFromEnvelope D env) \<noteq> None) \<and>
   (fst (UnmarshalSignedRoutingState D b) = None) =
     (snd (UnmarshalSignedRoutingState D b) \<noteq> None) \<and>
   (\<forall>err. crypto_OpenEnvelope D b StateEnvelopeDomain = Inl err \<longrightarrow>
      UnmarshalSignedRoutingState D b = (None, Some err)) \<and>
   (\<forall>e. crypto_OpenEnvelope D b StateEnvelopeDomain = Inr e \<longrightarrow>
      UnmarshalSignedRoutingState D b = SignedRoutingStateFromEnvelope D e) \<and>
   (env_PayloadType D env \<noteq> StateEnvelopePayloadType \<longrightarrow>
      SignedRoutingStateFromEnvelope D env =
        (None, Some (errors_New ''unexpected envelope payload type''))) \<and>
   (\<forall>err. env_PayloadType D env = StateEnvelopePayloadType \<longrightarrow>
      proto_Unmarshal D (env_Payload D env) = Inl err \<longrightarrow>
      SignedRoutingStateFromEnvelope D env = (None, Some err)) \<and>
   (\<forall>msg err. env_PayloadType D env = StateEnvelopePayloadType \<longrightarrow>
      proto_Unmarshal D (env_Payload D env) = Inr msg \<longrightarrow>
      peer_IDFromBytes D (PeerId msg) = Inl err \<longrightarrow>
      SignedRoutingStateFromEnvelope D env = (None, Some err)) \<and>
   (\<forall>msg ident. env_PayloadType D env = StateEnvelopePayloadType \<longrightarrow>
      proto_Unmarshal D (env_Payload D env) = Inr msg \<longrightarrow>
      peer_IDFromBytes D (PeerId msg) = Inr ident \<longrightarrow>
      \<not> peer_MatchesPublicKey D ident (env_PublicKey D env) \<longrightarrow>
      SignedRoutingStateFromEnvelope D env =
        (None, Some (errors_New
           ''peer id in routing state record does not match signing key'')))"
proof (intro conjI allI impI)
  show "(fst (SignedRoutingStateFromEnvelope D env) = None) =
      (snd (SignedRoutingStateFromEnvelope D env) \<noteq> None)"
    by (rule FromEnvelope_exclusive)
next
  show "(fst (UnmarshalSignedRoutingState D b) = None) =
      (snd (UnmarshalSignedRoutingState D b) \<noteq> None)"
    by (rule Unmarshal_exclusive)
next
  fix err
  assume "crypto_OpenEnvelope D b StateEnvelopeDomain = Inl err"
  then show "UnmarshalSignedRoutingState D b = (None, Some err)"
    by (rule Unmarshal_open_fails)
next
  fix e
  assume "crypto_OpenEnvelope D b StateEnvelopeDomain = Inr e"
  then show "UnmarshalSignedRoutingState D b = SignedRoutingStateFromEnvelope D e"
    by (rule Unmarshal_open_ok)
next
  assume "env_PayloadType D env \<noteq> StateEnvelopePayloadType"
  then show "SignedRoutingStateFromEnvelope D env =
      (None, Some (errors_New ''unexpected envelope payload type''))"
    by (rule FromEnvelope_type_mismatch)
next
  fix err
  assume "env_PayloadType D env = StateEnvelopePayloadType"
    and "proto_Unmarshal D (env_Payload D env) = Inl err"
  then show "SignedRoutingStateFromEnvelope D env = (None, Some err)"
    by (rule FromEnvelope_decode_fails)
next
  fix msg err
  assume "env_PayloadType D env = StateEnvelopePayloadType"
    and "proto_Unmarshal D (env_Payload D env) = Inr msg"
    and "peer_IDFromBytes D (PeerId msg) = Inl err"
  then show "SignedRoutingStateFromEnvelope D env = (None, Some err)"
    by (rule FromEnvelope_identity_fails)
next
  fix msg ident
  assume "env_PayloadType D env = StateEnvelopePayloadType"
    and "proto_Unmarshal D (env_Payload D env) = Inr msg"
    and "peer_IDFromBytes D (PeerId msg) = Inr ident"
    and "\<not> peer_MatchesPublicKey D ident (env_PublicKey D env)"
  then show "SignedRoutingStateFromEnvelope D env =
      (None, Some (errors_New ''peer id in routing state record does not match signing key''))"
    by (rule FromEnvelope_binding_fails)
qed

theorem parse_failure_returns_no_record_witness:
  "UnmarshalSignedRoutingState demo [] = (None, Some (errors_New ''demo: short envelope'')) \<and>
   SignedRoutingStateFromEnvelope demo demo_envelope_other_type =
     (None, Some (errors_New ''unexpected envelope payload type'')) \<and>
   SignedRoutingStateFromEnvelope demo demo_envelope_short =
     (None, Some (errors_New ''demo: short payload'')) \<and>
   SignedRoutingStateFromEnvelope demo demo_envelope_bad_id =
     (None, Some (errors_New ''demo: bad identity'')) \<and>
   SignedRoutingStateFromEnvelope demo demo_envelope_forged =
     (None, Some (errors_New ''peer id in routing state record does not match signing key''))"
proof (intro conjI)
  show "UnmarshalSignedRoutingState demo [] =
      (None, Some (errors_New ''demo: short envelope''))"
    using parse_failure_returns_no_record [of demo demo_envelope_ok "[]"] demo_open_empty
    by blast
  show "SignedRoutingStateFromEnvelope demo demo_envelope_other_type =
      (None, Some (errors_New ''unexpected envelope payload type''))"
    using parse_failure_returns_no_record [of demo demo_envelope_other_type "[]"]
      demo_other_type_steps
    by blast
  show "SignedRoutingStateFromEnvelope demo demo_envelope_short =
      (None, Some (errors_New ''demo: short payload''))"
    using parse_failure_returns_no_record [of demo demo_envelope_short "[]"]
      demo_short_steps
    by blast
  show "SignedRoutingStateFromEnvelope demo demo_envelope_bad_id =
      (None, Some (errors_New ''demo: bad identity''))"
    using parse_failure_returns_no_record [of demo demo_envelope_bad_id "[]"]
      demo_bad_id_steps
    by (metis RoutingStateRecord.select_convs(1))
  show "SignedRoutingStateFromEnvelope demo demo_envelope_forged =
      (None, Some (errors_New ''peer id in routing state record does not match signing key''))"
    using parse_failure_returns_no_record [of demo demo_envelope_forged "[]"]
      demo_forged_steps demo_ok_steps(3)
    by blast
qed

text \<open>
  C9: for every record pointer \<open>s\<close> (the nil pointer included), \<open>Equal(s, nil)\<close> returns
  false and does not panic.
\<close>

theorem Equal_nil_returns_False: "Equal D s None = Returns False"
  by (simp add: Equal_def)

text \<open>
  C10: a record built by \<open>MakeSignedRoutingState\<close> holds the list of addresses it was
  given, as it was given: \<open>Multiaddrs\<close> returns that list, malformed entries included.
  The parser sees less: under the contracts of the collaborators, parsing the serialised
  record succeeds and gives a record whose addresses are, byte for byte, only the
  well-formed ones of the list.
\<close>

theorem fresh_record_keeps_given_addresses:
  assumes "MakeSignedRoutingState D now privKey addrs = (Some r, None)"
  shows "Multiaddrs r = addrs \<and>
         (envelope_contract D \<longrightarrow> identity_contract D \<longrightarrow> proto_contract D \<longrightarrow>
          multiaddr_contract D \<longrightarrow>
            (\<exists>b r'. Marshal D r = Inr b \<and>
               UnmarshalSignedRoutingState D b = (Some r', None) \<and>
               map (ma_Bytes D) (Multiaddrs r') =
                 filter (wellformed_bytes D) (map (ma_Bytes D) addrs)))"
proof (intro conjI impI)
  from assms show "Multiaddrs r = addrs"
    by (simp add: Multiaddrs_def Make_fields)
next
  assume ec: "envelope_contract D" and ic: "identity_contract D"
    and pc: "proto_contract D" and mc: "multiaddr_contract D"
  from build_then_parse [OF ec ic pc assms] obtain b r' where
    b: "Marshal D r = Inr b" and
    u: "UnmarshalSignedRoutingState D b = (Some r', None)" and
    a: "addresses r' =
          map (parsed_addr D) (filter (wellformed_bytes D) (map (ma_Bytes D) addrs))"
    by blast
  have "map (ma_Bytes D) (Multiaddrs r') =
      filter (wellformed_bytes D) (map (ma_Bytes D) addrs)"
    using mc by (simp add: Multiaddrs_def a parsed_bytes map_filter_fixed)
  with b u show "\<exists>b r'. Marshal D r = Inr b \<and>
      UnmarshalSignedRoutingState D b = (Some r', None) \<and>
      map (ma_Bytes D) (Multiaddrs r') =
        filter (wellformed_bytes D) (map (ma_Bytes D) addrs)"
    by blast
qed

theorem fresh_record_keeps_given_addresses_witness:
  "MakeSignedRoutingState demo 17 5 [[1], [0], [2]] =
     (Some (demo_fresh 17 [[1], [0], [2]] [5, 17, 1, 0, 2]), None) \<and>
   \<not> wellformed_addr demo [0] \<and>
   Multiaddrs (demo_fresh 17 [[1], [0], [2]] [5, 17, 1, 0, 2]) = [[1], [0], [2]] \<and>
   (\<exists>b r'. Marshal demo (demo_fresh 17 [[1], [0], [2]] [5, 17, 1, 0, 2]) = Inr b \<and>
      UnmarshalSignedRoutingState demo b = (Some r', None) \<and>
      Multiaddrs r' = [[1], [2]])"
proof -
  have bad: "\<not> wellformed_addr demo [0]"
    using demo_addresses(3) by (simp add: wellformed_addr_def demo_def)
  have keep: "filter (wellformed_bytes demo) (map (ma_Bytes demo) [[1], [0], [2]]) = [[1], [2]]"
    using demo_addresses(2,3,4) by (simp add: demo_def)
  from fresh_record_keeps_given_addresses [OF demo_build(1)] demo_envelope_contract
    demo_identity_contract demo_proto_contract demo_multiaddr_contract
  have given: "Multiaddrs (demo_fresh 17 [[1], [0], [2]] [5, 17, 1, 0, 2]) = [[1], [0], [2]]"
    and parsed: "\<exists>b r'. Marshal demo (demo_fresh 17 [[1], [0], [2]] [5, 17, 1, 0, 2]) = Inr b \<and>
      UnmarshalSignedRoutingState demo b = (Some r', None) \<and>
      map (ma_Bytes demo) (Multiaddrs r') =
        filter (wellformed_bytes demo) (map (ma_Bytes demo) [[1], [0], [2]])"
    by blast+
  from parsed obtain b r' where
    m: "Marshal demo (demo_fresh 17 [[1], [0], [2]] [5, 17, 1, 0, 2]) = Inr b" and
    u: "UnmarshalSignedRoutingState demo b = (Some r', None)" and
    a: "map (ma_Bytes demo) (Multiaddrs r') = [[1], [2]]"
    unfolding keep by (elim exE conjE)
  have "ma_Bytes demo = id" by (simp add: demo_def)
  with a have "Multiaddrs r' = [[1], [2]]" by simp
  with m u given bad demo_build(1) show ?thesis by blast
qed

end
